theory Spec2Isabelle
  imports Main
begin

section \<open>Python strings\<close>

text \<open>
  A Python \<open>str\<close> is modelled as a \<^typ>\<open>string\<close>: a list of 8-bit characters, read as the
  code points U+0000 to U+00FF. The helpers below are the string methods the scraper calls,
  with Python's meaning on that range.
\<close>

definition startswith :: "string \<Rightarrow> string \<Rightarrow> bool" where
  \<comment> \<open>\<open>s.startswith(p)\<close>\<close>
  "startswith s p = (take (length p) s = p)"

definition rstrip_chr :: "char \<Rightarrow> string \<Rightarrow> string" where
  \<comment> \<open>\<open>s.rstrip(c)\<close> for a one-character argument: every trailing \<open>c\<close> is removed\<close>
  "rstrip_chr c s = rev (dropWhile (\<lambda>x. x = c) (rev s))"

fun str_in :: "string \<Rightarrow> string \<Rightarrow> bool" where
  \<comment> \<open>\<open>p in s\<close>: \<open>p\<close> occurs in \<open>s\<close> as a contiguous substring\<close>
  "str_in p [] = (p = [])"
| "str_in p (c # s) = (startswith (c # s) p \<or> str_in p s)"

definition lower_chr :: "char \<Rightarrow> char" where
  "lower_chr c =
     (let n = (of_char c :: nat)
      in if (65 \<le> n \<and> n \<le> 90) \<or> (192 \<le> n \<and> n \<le> 222 \<and> n \<noteq> 215)
         then char_of (n + 32) else c)"

definition lower :: "string \<Rightarrow> string" where
  \<comment> \<open>\<open>s.lower()\<close>\<close>
  "lower s = map lower_chr s"

definition is_space :: "char \<Rightarrow> bool" where
  \<comment> \<open>\<open>str.isspace\<close>, which is also the class \<open>\\s\<close> of \<open>re\<close> on a \<open>str\<close> pattern\<close>
  "is_space c =
     (let n = (of_char c :: nat)
      in (9 \<le> n \<and> n \<le> 13) \<or> (28 \<le> n \<and> n \<le> 32) \<or> n = 133 \<or> n = 160)"

definition strip :: "string \<Rightarrow> string" where
  \<comment> \<open>\<open>s.strip()\<close>\<close>
  "strip s = rev (dropWhile is_space (rev (dropWhile is_space s)))"

fun split_chr :: "char \<Rightarrow> string \<Rightarrow> string list" where
  \<comment> \<open>\<open>s.split(c)\<close> for a one-character separator\<close>
  "split_chr c [] = [[]]"
| "split_chr c (x # s) =
     (if x = c then [] # split_chr c s
      else (case split_chr c s of [] \<Rightarrow> [[x]] | w # ws \<Rightarrow> (x # w) # ws))"

section \<open>URL normalizer\<close>

text \<open>
  \<^verbatim>\<open>
  def normalize_url(url):
      if not url.startswith(('http://', 'https://')):
          url = 'https://' + url
      return url.rstrip('/')
  \<close>
\<close>

definition normalize_url :: "string \<Rightarrow> string" where
  "normalize_url url =
     (let url' = (if \<not> (startswith url ''http://'' \<or> startswith url ''https://'')
                  then ''https://'' @ url else url)
      in rstrip_chr (CHR ''/'') url')"

text \<open>
  What the specification calls a scheme, for comparison with the test the code makes: a
  letter, then letters, digits, \<open>+\<close>, \<open>-\<close> or \<open>.\<close>, then \<open>://\<close>.
\<close>

definition is_alpha :: "char \<Rightarrow> bool" where
  "is_alpha c = (let n = (of_char c :: nat) in (65 \<le> n \<and> n \<le> 90) \<or> (97 \<le> n \<and> n \<le> 122))"

definition is_digit :: "char \<Rightarrow> bool" where
  "is_digit c = (let n = (of_char c :: nat) in 48 \<le> n \<and> n \<le> 57)"

definition scheme_chr :: "char \<Rightarrow> bool" where
  "scheme_chr c = (is_alpha c \<or> is_digit c \<or> c = CHR ''+'' \<or> c = CHR ''-'' \<or> c = CHR ''.'')"

definition spec_has_scheme :: "string \<Rightarrow> bool" where
  "spec_has_scheme url =
     (case url of [] \<Rightarrow> False
      | c # cs \<Rightarrow> is_alpha c \<and> startswith (dropWhile scheme_chr cs) ''://'')"

section \<open>Terminal status of a run\<close>

text \<open>
  The block of \<open>start_scraping\<close> that runs once the batch loop has ended. The row of the
  \<open>projects\<close> table is a record; \<open>total_urls\<close> is a nullable integer column.
  \<^verbatim>\<open>
  project = Project.query.get(project_id)
  if project and not project.paused:
      actual_processed = ScrapedData.query.filter_by(project_id=project_id).count()
      actual_total = project.total_urls or ProjectURL.query.filter_by(project_id=project_id).count()
      project.processed_urls = actual_processed
      project.progress = int((actual_processed / actual_total) * 100) if actual_total > 0 else 0
      if actual_processed >= actual_total:
          project.status = 'completed'
          project.progress = 100
          project.completed_at = db.func.now()
      else:
          project.status = 'error'
  \<close>
  The percentage is a floating-point expression; it is a parameter \<open>pct\<close> of the model.
\<close>

record project =
  p_status :: string
  p_progress :: int
  p_total_urls :: "int option"
  p_processed_urls :: int
  p_emails_found :: int
  p_paused :: bool
  p_completed_at :: "nat option"

definition actual_total :: "project \<Rightarrow> int \<Rightarrow> int" where
  \<comment> \<open>\<open>project.total_urls or <count of the project's URL rows>\<close>\<close>
  "actual_total p url_count =
     (case p_total_urls p of None \<Rightarrow> url_count | Some t \<Rightarrow> if t = 0 then url_count else t)"

definition finish_run ::
  "(int \<Rightarrow> int \<Rightarrow> int) \<Rightarrow> nat \<Rightarrow> project option \<Rightarrow> int \<Rightarrow> int \<Rightarrow> project option" where
  "finish_run pct now proj scraped_count url_count =
     (case proj of
        None \<Rightarrow> None
      | Some p \<Rightarrow>
          if p_paused p then Some p
          else
            (let actual_processed = scraped_count;
                 total = actual_total p url_count;
                 p1 = p\<lparr>p_processed_urls := actual_processed\<rparr>;
                 p2 = p1\<lparr>p_progress := (if total > 0 then pct actual_processed total else 0)\<rparr>
             in if actual_processed \<ge> total
                then Some (p2\<lparr>p_status := ''completed'', p_progress := 100, p_completed_at := Some now\<rparr>)
                else Some (p2\<lparr>p_status := ''error''\<rparr>)))"

section \<open>The internal-link crawl list\<close>

text \<open>
  The rows of the \<open>settings\<close> table that the crawl list reads; both columns are nullable.
  \<open>page_links\<close> is the dictionary \<open>page_data['links']\<close> returned by
  \<open>extract_structured_links\<close>.
\<close>

record settings =
  max_retries :: int
  request_timeout :: int
  max_internal_links :: "int option"
  url_exclusion_patterns :: "string option"

record page_links =
  contact :: "string list"
  header :: "string list"
  footer :: "string list"
  body :: "string list"

definition slice_to :: "'a list \<Rightarrow> int \<Rightarrow> 'a list" where
  \<comment> \<open>\<open>xs[:n]\<close>; a negative \<open>n\<close> counts from the end\<close>
  "slice_to xs n = (if n \<ge> 0 then take (nat n) xs else take (nat (int (length xs) + n)) xs)"

definition dict_fromkeys :: "'a list \<Rightarrow> 'a list" where
  \<comment> \<open>\<open>list(dict.fromkeys(xs))\<close>: the keys in insertion order, a repeated key keeps its place\<close>
  "dict_fromkeys xs = foldl (\<lambda>d k. if k \<in> set d then d else d @ [k]) [] xs"

text \<open>
  \<^verbatim>\<open>
  regex_pattern = re.escape(pattern).replace(r'\*', '.*')
  if re.search(regex_pattern, url_lower): return True
  \<close>
  After \<open>re.escape\<close> every character of the pattern but \<open>*\<close> is a literal, and \<open>*\<close>
  has become \<open>.*\<close>, which matches any run of characters other than a newline.
  \<open>wild_match_here p s\<close>: the compiled pattern matches a prefix of \<open>s\<close>;
  \<open>wild_search p s\<close>: \<open>re.search\<close> finds a match somewhere in \<open>s\<close>.
\<close>

fun wild_match_here :: "string \<Rightarrow> string \<Rightarrow> bool" where
  "wild_match_here [] s = True"
| "wild_match_here (p # ps) [] = (p = CHR ''*'' \<and> wild_match_here ps [])"
| "wild_match_here (p # ps) (c # cs) =
     (if p = CHR ''*''
      then (c \<noteq> CHR 0x0A \<and> wild_match_here (p # ps) cs) \<or> wild_match_here ps (c # cs)
      else p = c \<and> wild_match_here ps cs)"

fun wild_search :: "string \<Rightarrow> string \<Rightarrow> bool" where
  "wild_search p [] = wild_match_here p []"
| "wild_search p (c # cs) = (wild_match_here p (c # cs) \<or> wild_search p cs)"

text \<open>
  \<^verbatim>\<open>
  def matches_exclusion(url, patterns):
      url_lower = url.lower()
      for pattern in patterns:
          if '*' in pattern:
              regex_pattern = re.escape(pattern).replace(r'\*', '.*')
              if re.search(regex_pattern, url_lower):
                  return True
          else:
              if pattern in url_lower:
                  return True
      return False
  \<close>
\<close>

definition pattern_matches :: "string \<Rightarrow> string \<Rightarrow> bool" where
  "pattern_matches pattern url_lower =
     (if CHR ''*'' \<in> set pattern then wild_search pattern url_lower
      else str_in pattern url_lower)"

definition matches_exclusion :: "string \<Rightarrow> string list \<Rightarrow> bool" where
  "matches_exclusion url patterns = list_ex (\<lambda>pattern. pattern_matches pattern (lower url)) patterns"

text \<open>
  \<^verbatim>\<open>
  url_exclusion_setting = getattr(settings, 'url_exclusion_patterns', '') or ''
  if url_exclusion_setting:
      raw_patterns = url_exclusion_setting.replace('\n', ',').split(',')
      exclusion_patterns = [p.strip().lower() for p in raw_patterns if p.strip()]
  \<close>
\<close>

definition exclusion_patterns :: "settings \<Rightarrow> string list" where
  "exclusion_patterns s =
     (let url_exclusion_setting = (case url_exclusion_patterns s of None \<Rightarrow> [] | Some v \<Rightarrow> v)
      in if url_exclusion_setting = [] then []
         else
           (let raw_patterns =
                  split_chr (CHR '','')
                    (map (\<lambda>c. if c = CHR 0x0A then CHR '','' else c) url_exclusion_setting)
            in map (\<lambda>p. lower (strip p)) (filter (\<lambda>p. strip p \<noteq> []) raw_patterns)))"

definition max_internal :: "settings \<Rightarrow> int" where
  \<comment> \<open>\<open>settings.max_internal_links or 25\<close>\<close>
  "max_internal s = (case max_internal_links s of None \<Rightarrow> 25 | Some n \<Rightarrow> if n = 0 then 25 else n)"

text \<open>
  \<^verbatim>\<open>
  links_to_scrape = []
  links_to_scrape.extend(page_data['links']['contact'])
  links_to_scrape.extend(page_data['links']['footer'])
  links_to_scrape.extend(page_data['links']['header'])
  links_to_scrape.extend(page_data['links']['body'])
  ...
  if exclusion_patterns:
      links_to_scrape = [link for link in links_to_scrape
                         if not matches_exclusion(link, exclusion_patterns)]
  links_to_scrape = list(dict.fromkeys(links_to_scrape))[:max_internal]
  \<close>
\<close>

definition links_to_scrape :: "settings \<Rightarrow> page_links \<Rightarrow> string list" where
  "links_to_scrape s links =
     (let l0 = contact links @ footer links @ header links @ body links;
          pats = exclusion_patterns s;
          l1 = (if pats \<noteq> [] then filter (\<lambda>link. \<not> matches_exclusion link pats) l0 else l0)
      in slice_to (dict_fromkeys l1) (max_internal s))"

text \<open>
  The crawl set in the specification's words: the categories in priority order, the excluded
  links removed, each link kept at its first occurrence, cut to the limit.
\<close>

fun first_occurrences :: "'a list \<Rightarrow> 'a list" where
  "first_occurrences [] = []"
| "first_occurrences (x # xs) = x # removeAll x (first_occurrences xs)"

definition spec_crawl_set :: "nat \<Rightarrow> string list \<Rightarrow> page_links \<Rightarrow> string list" where
  "spec_crawl_set limit pats links =
     take limit
       (first_occurrences
          (filter (\<lambda>link. \<not> matches_exclusion link pats)
             (contact links @ footer links @ header links @ body links)))"

section \<open>Social-profile extraction\<close>

text \<open>
  \<open>SOCIAL_PLATFORMS\<close> is a dictionary in insertion order: an association list. An anchor
  element is modelled by what the code reads from it: \<open>link.get('href', '')\<close>,
  \<open>link.get_text(strip=True)\<close> and \<open>link.get('class', [])\<close>. The candidate list
  \<open>all_candidates\<close> is built by BeautifulSoup queries over the page and is the input here.
\<close>

datatype platform = Facebook | Twitter | Linkedin | Instagram | Youtube | Pinterest | Tiktok

record platform_config =
  domains :: "string list"
  exclude :: "string list"
  class_hints :: "string list"

definition SOCIAL_PLATFORMS :: "(platform \<times> platform_config) list" where
  "SOCIAL_PLATFORMS =
   [(Facebook, \<lparr>domains = [''facebook.com'', ''fb.com'', ''fb.me'', ''www.facebook.com''],
       exclude = [''sharer'', ''share.php'', ''dialog'', ''plugins'', ''login'', ''/groups/'',
                  ''photo.php'', ''events/'', ''l.php''],
       class_hints = [''facebook'', ''fb-'', ''fa-facebook'']\<rparr>),
    (Twitter, \<lparr>domains = [''twitter.com'', ''x.com'', ''www.twitter.com'', ''www.x.com''],
       exclude = [''share'', ''intent'', ''search'', ''hashtag'', ''/i/'', ''status/'', ''widgets''],
       class_hints = [''twitter'', ''fa-twitter'', ''x-twitter'']\<rparr>),
    (Linkedin, \<lparr>domains = [''linkedin.com'', ''www.linkedin.com''],
       exclude = [''shareArticle'', ''share?'', ''cws/share'', ''login'', ''signup''],
       class_hints = [''linkedin'', ''fa-linkedin'']\<rparr>),
    (Instagram, \<lparr>domains = [''instagram.com'', ''www.instagram.com'', ''instagr.am''],
       exclude = [''/p/'', ''/explore/'', ''/accounts/'', ''/direct/'', ''/reel/'', ''share''],
       class_hints = [''instagram'', ''fa-instagram'', ''insta'']\<rparr>),
    (Youtube, \<lparr>domains = [''youtube.com'', ''www.youtube.com'', ''youtu.be''],
       exclude = [''watch?'', ''embed/'', ''share'', ''playlist?'', ''results?''],
       class_hints = [''youtube'', ''fa-youtube'', ''yt-'']\<rparr>),
    (Pinterest, \<lparr>domains = [''pinterest.com'', ''www.pinterest.com'', ''pin.it''],
       exclude = [''/pin/'', ''create'', ''share'', ''button''],
       class_hints = [''pinterest'', ''fa-pinterest'']\<rparr>),
    (Tiktok, \<lparr>domains = [''tiktok.com'', ''www.tiktok.com''],
       exclude = [''share'', ''embed'', ''/video/'', ''/tag/''],
       class_hints = [''tiktok'', ''fa-tiktok'']\<rparr>)]"

record link_element =
  href :: string
  link_text :: string
  classes :: "string list"

fun join_sp :: "string list \<Rightarrow> string" where
  \<comment> \<open>\<open>' '.join(xs)\<close>\<close>
  "join_sp [] = []"
| "join_sp [x] = x"
| "join_sp (x # y # ys) = x @ '' '' @ join_sp (y # ys)"

text \<open>
  \<^verbatim>\<open>
  def is_share_button(href, link_element, platform_config):
      href_lower = href.lower()
      for exclude in platform_config.get('exclude', []):
          if exclude.lower() in href_lower:
              return True
      link_text = link_element.get_text(strip=True).lower()
      if any(word in link_text for word in ['share', 'tweet this', 'post this', 'pin it']):
          return True
      classes = ' '.join(link_element.get('class', [])).lower()
      if any(word in classes for word in ['share', 'sharer', 'addthis', 'sharethis']):
          return True
      return False
  \<close>
\<close>

definition share_token_in_href :: "string \<Rightarrow> platform_config \<Rightarrow> bool" where
  "share_token_in_href h cfg = list_ex (\<lambda>e. str_in (lower e) (lower h)) (exclude cfg)"

definition share_word_in_text :: "link_element \<Rightarrow> bool" where
  "share_word_in_text link =
     list_ex (\<lambda>word. str_in word (lower (link_text link)))
       [''share'', ''tweet this'', ''post this'', ''pin it'']"

definition share_word_in_class :: "link_element \<Rightarrow> bool" where
  "share_word_in_class link =
     list_ex (\<lambda>word. str_in word (lower (join_sp (classes link))))
       [''share'', ''sharer'', ''addthis'', ''sharethis'']"

definition is_share_button :: "string \<Rightarrow> link_element \<Rightarrow> platform_config \<Rightarrow> bool" where
  "is_share_button h link cfg =
     (share_token_in_href h cfg \<or> share_word_in_text link \<or> share_word_in_class link)"

text \<open>
  \<^verbatim>\<open>
  def clean_social_url(href):
      if '?' in href:
          base = href.split('?')[0]
          return base.rstrip('/')
      return href.rstrip('/')
  \<close>
\<close>

definition clean_social_url :: "string \<Rightarrow> string" where
  "clean_social_url h =
     (if CHR ''?'' \<in> set h then rstrip_chr (CHR ''/'') (takeWhile (\<lambda>c. c \<noteq> CHR ''?'') h)
      else rstrip_chr (CHR ''/'') h)"

text \<open>
  The loop over the candidates of \<open>extract_social_links\<close>. \<open>social_links\<close> is the result
  dictionary, every platform initially \<open>None\<close>.
  \<^verbatim>\<open>
  for link, source in all_candidates:
      href = link.get('href', '')
      if not href or href.startswith(('#', 'javascript:', 'mailto:', 'tel:')):
          continue
      href_lower = href.lower()
      for platform, config in SOCIAL_PLATFORMS.items():
          if social_links[platform]:  # Already found
              continue
          if any(domain in href_lower for domain in config['domains']):
              if not is_share_button(href, link, config):
                  clean_url = clean_social_url(href)
                  if clean_url and len(clean_url) > 20:  # Valid URL
                      social_links[platform] = clean_url
                      break
  \<close>
\<close>

type_synonym social_links = "platform \<Rightarrow> string option"

definition truthy :: "string option \<Rightarrow> bool" where
  \<comment> \<open>the truth value of a value that is \<open>None\<close> or a string\<close>
  "truthy v = (case v of None \<Rightarrow> False | Some s \<Rightarrow> s \<noteq> [])"

definition skipped_href :: "string \<Rightarrow> bool" where
  "skipped_href h =
     (h = [] \<or> startswith h ''#'' \<or> startswith h ''javascript:'' \<or> startswith h ''mailto:''
      \<or> startswith h ''tel:'')"

definition domain_in_href :: "string \<Rightarrow> platform_config \<Rightarrow> bool" where
  "domain_in_href h cfg = list_ex (\<lambda>d. str_in d (lower h)) (domains cfg)"

definition accepts :: "link_element \<Rightarrow> platform_config \<Rightarrow> bool" where
  \<comment> \<open>the three nested tests under which the loop stores the link for a platform\<close>
  "accepts link cfg =
     (domain_in_href (href link) cfg \<and> \<not> is_share_button (href link) link cfg
      \<and> clean_social_url (href link) \<noteq> [] \<and> length (clean_social_url (href link)) > 20)"

fun match_platforms ::
  "(platform \<times> platform_config) list \<Rightarrow> link_element \<Rightarrow> social_links \<Rightarrow> social_links" where
  "match_platforms [] link sl = sl"
| "match_platforms ((pf, cfg) # rest) link sl =
     (if truthy (sl pf) then match_platforms rest link sl
      else if accepts link cfg then sl(pf := Some (clean_social_url (href link)))
      else match_platforms rest link sl)"

fun process_candidates :: "link_element list \<Rightarrow> social_links \<Rightarrow> social_links" where
  "process_candidates [] sl = sl"
| "process_candidates (link # rest) sl =
     (if skipped_href (href link) then process_candidates rest sl
      else process_candidates rest (match_platforms SOCIAL_PLATFORMS link sl))"

definition extract_social_links :: "link_element list \<Rightarrow> social_links" where
  "extract_social_links all_candidates = process_candidates all_candidates (\<lambda>_. None)"

section \<open>Run configuration\<close>

text \<open>
  The values \<open>start_scraping\<close> computes once and its nested functions close over:
  \<open>use_proxies\<close>, \<open>use_playwright\<close>, \<open>fail_threshold\<close>, \<open>batch_size\<close>, the
  user's \<open>settings\<close> row, and the module constant \<open>PLAYWRIGHT_AVAILABLE\<close>.
\<close>

record run_config =
  use_proxies :: bool
  use_playwright :: bool
  PLAYWRIGHT_AVAILABLE :: bool
  fail_threshold :: int
  batch_size :: nat
  user_settings :: settings

section \<open>Proxy pool\<close>

text \<open>
  The pool is the list \<open>proxies_list\<close> with the counters \<open>proxy_failures\<close>
  (a \<open>defaultdict(int)\<close>), both closed over by \<open>get_proxy\<close> and \<open>record_proxy_failure\<close>.
  \<open>random.choice\<close> takes its draw as an argument.
  \<^verbatim>\<open>
  def get_proxy():
      if not use_proxies or not proxies_list:
          return None
      with proxy_lock:
          return random.choice(proxies_list) if proxies_list else None

  def record_proxy_failure(proxy):
      if not proxy:
          return
      with proxy_lock:
          proxy_failures[proxy] += 1
          if proxy_failures[proxy] >= fail_threshold and proxy in proxies_list:
              proxies_list.remove(proxy)
  \<close>
\<close>

record pool =
  proxies_list :: "string list"
  proxy_failures :: "string \<Rightarrow> int"

definition get_proxy :: "run_config \<Rightarrow> nat \<Rightarrow> 'a pool_scheme \<Rightarrow> string option" where
  "get_proxy cfg draw pl =
     (if \<not> use_proxies cfg \<or> proxies_list pl = [] then None
      else Some (proxies_list pl ! (draw mod length (proxies_list pl))))"

definition record_proxy_failure ::
  "run_config \<Rightarrow> string option \<Rightarrow> 'a pool_scheme \<Rightarrow> 'a pool_scheme" where
  "record_proxy_failure cfg proxy pl =
     (if \<not> truthy proxy then pl
      else
        (let p = the proxy;
             pl1 = pl\<lparr>proxy_failures := (proxy_failures pl)(p := proxy_failures pl p + 1)\<rparr>
         in if proxy_failures pl1 p \<ge> fail_threshold cfg \<and> p \<in> set (proxies_list pl1)
            then pl1\<lparr>proxies_list := remove1 p (proxies_list pl1)\<rparr>
            else pl1))"

fun record_failures :: "run_config \<Rightarrow> string list \<Rightarrow> 'a pool_scheme \<Rightarrow> 'a pool_scheme" where
  \<comment> \<open>a run's calls of \<open>record_proxy_failure\<close>, in the order the lock admits them\<close>
  "record_failures cfg [] pl = pl"
| "record_failures cfg (p # ps) pl = record_failures cfg ps (record_proxy_failure cfg (Some p) pl)"

definition selectable :: "run_config \<Rightarrow> string \<Rightarrow> 'a pool_scheme \<Rightarrow> bool" where
  \<comment> \<open>some draw makes \<open>get_proxy\<close> return the proxy\<close>
  "selectable cfg p pl = (\<exists>draw. get_proxy cfg draw pl = Some p)"

section \<open>Fetch layer\<close>

text \<open>
  A fetch result is the dictionary the two strategies return; a key that a branch leaves
  out is \<open>None\<close>. The parsed document \<open>soup\<close> is a function of \<open>html\<close> and has no field.

  What the network does is the input. For the direct strategy it is what the \<open>try\<close> block
  of \<open>scrape_url_requests\<close> runs into: \<open>GetOk\<close> (the response passed
  \<open>raise_for_status\<close>), \<open>GetHTTPError\<close> (an \<open>HTTPError\<close> carrying \<open>e.response\<close>, with
  its status code and its truth value, and \<open>str(e)\<close>) or \<open>GetException\<close> (anything else).
\<close>

record fetch_result =
  status :: string
  http_status :: "int option"
  html :: "string option"
  error :: "string option"
  is_cloudflare :: "bool option"
  proxy_used :: "string option"
  scrape_method :: "string option"

record response =
  status_code :: int
  response_truth :: bool

datatype http_outcome =
    GetOk int string
  | GetHTTPError "response option" string
  | GetException string




text \<open>
  The browser strategy. \<open>SeleniumScraper.scrape_url\<close> (file \<open>selenium_scraper.py\<close>) loads
  the page and returns a dictionary on each of its three paths; \<open>scrape_url_playwright\<close>
  wraps it. \<open>Raised\<close> is an exception in the \<open>try\<close> block of \<open>scrape_url_playwright\<close>
  that \<open>scrape_url\<close> did not turn into a dictionary itself (from \<open>get_selenium_scraper\<close>
  or from parsing the page source).
\<close>

datatype page_outcome =
    PageLoaded string int
  | PageTimeout string
  | PageError string



datatype browser_outcome = Scraped page_outcome | Raised string




section \<open>Page processing\<close>


record page_data =
  emails :: "string list"
  links :: page_links
  social :: social_links
  pd_is_contact_page :: bool
  pd_http_status :: int


section \<open>The state of a run\<close>

text \<open>
  The state the nested functions of \<open>start_scraping\<close> share: the proxy pool, the counter
  \<open>playwright_count\<close>, the rows of \<open>scraped_data\<close> and the project row. What the outside
  world will answer is part of the state as scripts, read in order: the outcome of each
  HTTP request, of each browser load, each draw of \<open>random.choice\<close>, and each reading of
  the project's pause flag. \<open>log\<close> records the calls made, in order.
\<close>

datatype event =
    Fetch string bool
  | Wait string
  | Get string "string option"
  | Sleep int
  | Browser string
  | Cleanup
  | Persist string

record scraped_row =
  homepage_url :: string
  internal_links_list :: "string set"
  emails_list :: "string set"
  sd_is_contact_page :: bool
  contact_page_url :: "string option"
  sd_social :: social_links
  sd_http_status :: int
  sd_scrape_method :: string

record world = pool +
  playwright_count :: int
  http_script :: "http_outcome list"
  browser_script :: "browser_outcome list"
  random_script :: "nat list"
  pause_script :: "bool list"
  log :: "event list"
  scraped_data :: "scraped_row list"
  project_row :: project


definition next_http :: "world \<Rightarrow> http_outcome \<times> world" where
  "next_http w =
     (case http_script w of
        [] \<Rightarrow> (GetException ''no answer'', w)
      | x # xs \<Rightarrow> (x, w\<lparr>http_script := xs\<rparr>))"




section \<open>Fetch with fallback\<close>







section \<open>Exceptions that leave the fetch\<close>







section \<open>Processing one homepage\<close>






section \<open>The batch loop\<close>






section \<open>Views of the model used in the statements\<close>



















section \<open>Properties of the URL normalizer\<close>

lemma rstrip_chr_decompose: "\<exists>k. rstrip_chr c s @ replicate k c = s"
proof -
  have "\<exists>k. dropWhile (\<lambda>x. x = c) t = drop k t \<and> take k t = replicate k c" for t :: string
  proof (induction t)
    case Nil
    show ?case by simp
  next
    case (Cons a t)
    show ?case
    proof (cases "a = c")
      case True
      from Cons obtain k where k: "dropWhile (\<lambda>x. x = c) t = drop k t" "take k t = replicate k c"
        by blast
      have "dropWhile (\<lambda>x. x = c) (a # t) = drop (Suc k) (a # t)
            \<and> take (Suc k) (a # t) = replicate (Suc k) c"
        using True k by simp
      then show ?thesis by blast
    next
      case False
      then have "dropWhile (\<lambda>x. x = c) (a # t) = drop 0 (a # t)
                 \<and> take 0 (a # t) = replicate 0 c"
        by simp
      then show ?thesis by blast
    qed
  qed
  then obtain k where k: "dropWhile (\<lambda>x. x = c) (rev s) = drop k (rev s)"
    "take k (rev s) = replicate k c"
    by blast
  have "rev s = take k (rev s) @ drop k (rev s)" by simp
  then have "rev s = replicate k c @ dropWhile (\<lambda>x. x = c) (rev s)"
    using k by simp
  then have "rev (rev s) = rev (replicate k c @ dropWhile (\<lambda>x. x = c) (rev s))"
    by simp
  then have "s = rstrip_chr c s @ replicate k c"
    by (simp add: rstrip_chr_def)
  then show ?thesis by metis
qed

lemma rstrip_chr_no_trailing: "rstrip_chr c s = [] \<or> last (rstrip_chr c s) \<noteq> c"
proof (cases "dropWhile (\<lambda>x. x = c) (rev s)")
  case Nil
  then show ?thesis by (simp add: rstrip_chr_def)
next
  case (Cons a t)
  then have "a \<noteq> c"
    using hd_dropWhile [of "\<lambda>x. x = c" "rev s"] by auto
  then show ?thesis
    using Cons by (simp add: rstrip_chr_def)
qed

lemma normalize_url_nonempty: "normalize_url url \<noteq> []"
proof -
  define u where "u = (if \<not> (startswith url ''http://'' \<or> startswith url ''https://'')
                  then ''https://'' @ url else url)"
  have hd: "\<exists>t. u = CHR ''h'' # t"
    unfolding u_def startswith_def by (cases url) (auto simp: take_Cons')
  obtain k where k: "rstrip_chr (CHR ''/'') u @ replicate k (CHR ''/'') = u"
    using rstrip_chr_decompose by blast
  have "rstrip_chr (CHR ''/'') u \<noteq> []"
  proof
    assume "rstrip_chr (CHR ''/'') u = []"
    with k have "u = replicate k (CHR ''/'')" by simp
    with hd show False by (cases k) auto
  qed
  then show ?thesis by (simp add: normalize_url_def u_def)
qed

lemma normalize_url_last: "last (normalize_url url) \<noteq> CHR ''/''"
proof -
  define u where "u = (if \<not> (startswith url ''http://'' \<or> startswith url ''https://'')
                  then ''https://'' @ url else url)"
  have eq: "normalize_url url = rstrip_chr (CHR ''/'') u"
    by (simp add: normalize_url_def u_def)
  have "rstrip_chr (CHR ''/'') u \<noteq> []"
    using normalize_url_nonempty [of url] eq by simp
  then have "last (rstrip_chr (CHR ''/'') u) \<noteq> CHR ''/''"
    using rstrip_chr_no_trailing [of "CHR ''/''" u] by blast
  then show ?thesis using eq by simp
qed

text \<open>
  Claim C9, as the code has it. \<open>normalize_url\<close> is a total function of its argument. It
  prepends \<open>https://\<close> exactly when the URL does not begin with the literal prefix
  \<open>http://\<close> or \<open>https://\<close>; the result is that string without its trailing slashes:
  putting some number of slashes back gives the string, and the result never ends in a
  slash. A URL that begins with one of the two prefixes is returned with only its trailing
  slashes removed.
\<close>

theorem normalize_url_rule:
  "(\<not> (startswith url ''http://'' \<or> startswith url ''https://'')
      \<longrightarrow> (\<exists>k. normalize_url url @ replicate k (CHR ''/'') = ''https://'' @ url))
   \<and> (startswith url ''http://'' \<or> startswith url ''https://''
      \<longrightarrow> (\<exists>k. normalize_url url @ replicate k (CHR ''/'') = url))
   \<and> normalize_url url \<noteq> [] \<and> last (normalize_url url) \<noteq> CHR ''/''"
proof -
  have a: "\<not> (startswith url ''http://'' \<or> startswith url ''https://'')
      \<longrightarrow> (\<exists>k. normalize_url url @ replicate k (CHR ''/'') = ''https://'' @ url)"
    using rstrip_chr_decompose [of "CHR ''/''" "''https://'' @ url"]
    by (simp add: normalize_url_def)
  have b: "startswith url ''http://'' \<or> startswith url ''https://''
      \<longrightarrow> (\<exists>k. normalize_url url @ replicate k (CHR ''/'') = url)"
    using rstrip_chr_decompose [of "CHR ''/''" url]
    by (auto simp: normalize_url_def)
  from a b normalize_url_nonempty [of url] normalize_url_last [of url] show ?thesis by blast
qed

theorem normalize_url_rule_witness:
  "\<not> (startswith ''example.com/'' ''http://'' \<or> startswith ''example.com/'' ''https://'')
   \<and> (\<exists>k. normalize_url ''example.com/'' @ replicate k (CHR ''/'') = ''https://example.com/'')
   \<and> startswith ''http://example.com//'' ''http://''
   \<and> (\<exists>k. normalize_url ''http://example.com//'' @ replicate k (CHR ''/'') = ''http://example.com//'')"
  using normalize_url_rule [of "''example.com/''"] normalize_url_rule [of "''http://example.com//''"]
  by (simp add: startswith_def)

text \<open>
  Claim C9 as it is written speaks of a scheme being present. A URL with another scheme, or
  with the scheme in upper case, has a scheme and still gets \<open>https://\<close> prepended.
\<close>

theorem normalize_url_other_scheme:
  "spec_has_scheme ''ftp://example.com/'' \<and> spec_has_scheme ''HTTP://Example.com''
   \<and> normalize_url ''ftp://example.com/'' = ''https://ftp://example.com''
   \<and> normalize_url ''HTTP://Example.com'' = ''https://HTTP://Example.com''"
  by (simp add: spec_has_scheme_def normalize_url_def startswith_def rstrip_chr_def
      is_alpha_def scheme_chr_def is_digit_def)

section \<open>Properties of the terminal status\<close>

text \<open>
  Claim C7. When the batch loop has ended and the project is not paused, the final block
  sets the status from the number of persisted records: \<open>completed\<close> with progress 100
  when that number reaches the total URL count, and \<open>error\<close>, never \<open>completed\<close>, when it
  is smaller.
\<close>

theorem finish_run_status:
  assumes "\<not> p_paused p"
  shows "\<exists>p'. finish_run pct now (Some p) processed url_count = Some p'
     \<and> (actual_total p url_count \<le> processed
          \<longrightarrow> p_status p' = ''completed'' \<and> p_progress p' = 100)
     \<and> (processed < actual_total p url_count
          \<longrightarrow> p_status p' = ''error'' \<and> p_status p' \<noteq> ''completed'')"
  using assms by (simp add: finish_run_def Let_def)

theorem finish_run_status_witness:
  "\<not> p_paused \<lparr>p_status = ''running'', p_progress = 0, p_total_urls = Some 3,
       p_processed_urls = 0, p_emails_found = 0, p_paused = False, p_completed_at = None\<rparr>
   \<and> (\<exists>p'. finish_run (\<lambda>a b. 66) 0 (Some \<lparr>p_status = ''running'', p_progress = 0, p_total_urls = Some 3,
       p_processed_urls = 0, p_emails_found = 0, p_paused = False, p_completed_at = None\<rparr>) 2 3 = Some p'
       \<and> p_status p' = ''error'')
   \<and> (\<exists>p'. finish_run (\<lambda>a b. 66) 0 (Some \<lparr>p_status = ''running'', p_progress = 0, p_total_urls = Some 3,
       p_processed_urls = 0, p_emails_found = 0, p_paused = False, p_completed_at = None\<rparr>) 3 3 = Some p'
       \<and> p_status p' = ''completed'' \<and> p_progress p' = 100)"
proof -
  let ?p = "\<lparr>p_status = ''running'', p_progress = 0, p_total_urls = Some 3,
       p_processed_urls = 0, p_emails_found = 0, p_paused = False, p_completed_at = None\<rparr>"
  have np: "\<not> p_paused ?p" by simp
  have t: "actual_total ?p 3 = 3" by (simp add: actual_total_def)
  from finish_run_status [OF np, of "\<lambda>a b. 66" 0 2 3] t
  have e: "\<exists>p'. finish_run (\<lambda>a b. 66) 0 (Some ?p) 2 3 = Some p' \<and> p_status p' = ''error''"
    by auto
  from finish_run_status [OF np, of "\<lambda>a b. 66" 0 3 3] t
  have c: "\<exists>p'. finish_run (\<lambda>a b. 66) 0 (Some ?p) 3 3 = Some p'
       \<and> p_status p' = ''completed'' \<and> p_progress p' = 100"
    by auto
  from np e c show ?thesis by blast
qed

section \<open>Properties of the crawl list\<close>

lemma foldl_fromkeys:
  "foldl (\<lambda>d k. if k \<in> set d then d else d @ [k]) acc xs
   = acc @ filter (\<lambda>y. y \<notin> set acc) (first_occurrences xs)"
proof (induction xs arbitrary: acc)
  case Nil
  show ?case by simp
next
  case (Cons x xs)
  show ?case
  proof (cases "x \<in> set acc")
    case True
    then have "filter (\<lambda>y. y \<notin> set acc) (removeAll x (first_occurrences xs))
               = filter (\<lambda>y. y \<notin> set acc) (first_occurrences xs)"
      by (induction "first_occurrences xs") (auto simp: removeAll_filter_not_eq intro: filter_cong)
    with True Cons show ?thesis by simp
  next
    case False
    have "filter (\<lambda>y. y \<notin> set (acc @ [x])) (first_occurrences xs)
          = filter (\<lambda>y. y \<notin> set acc) (removeAll x (first_occurrences xs))"
      by (auto simp: removeAll_filter_not_eq intro: filter_cong)
    with False Cons [of "acc @ [x]"] show ?thesis by simp
  qed
qed

lemma dict_fromkeys_first_occurrences: "dict_fromkeys xs = first_occurrences xs"
  using foldl_fromkeys [of "[]" xs] by (simp add: dict_fromkeys_def)

lemma matches_exclusion_Nil: "\<not> matches_exclusion link []"
  by (simp add: matches_exclusion_def)

lemma links_to_scrape_spec:
  "links_to_scrape s lks
   = slice_to (first_occurrences
       (filter (\<lambda>link. \<not> matches_exclusion link (exclusion_patterns s))
          (contact lks @ footer lks @ header lks @ body lks))) (max_internal s)"
  by (simp add: links_to_scrape_def Let_def dict_fromkeys_first_occurrences matches_exclusion_Nil)

text \<open>
  Where the limit the code computes is the user's setting, that is for a positive
  \<open>max_internal_links\<close>, the crawl list is the crawl set of the specification: the contact
  links, then the footer, header and body links, without the links that match an exclusion
  pattern, each link kept at its first occurrence, cut to the setting. With a limit of 2, no
  exclusions, one contact link, one footer link and two body links, it is the contact link
  followed by the footer link. The second part is the value that \<open>or 25\<close> gives to a
  setting that is unset or 0.
\<close>

lemma crawl_list_priority:
  "(max_internal_links s = Some n \<and> 0 < n
      \<longrightarrow> links_to_scrape s lks = spec_crawl_set (nat n) (exclusion_patterns s) lks)
   \<and> (max_internal_links s = None \<or> max_internal_links s = Some 0
      \<longrightarrow> links_to_scrape s lks = spec_crawl_set 25 (exclusion_patterns s) lks)
   \<and> (max_internal_links s = Some 2 \<and> exclusion_patterns s = [] \<and> c \<noteq> f
      \<longrightarrow> links_to_scrape s \<lparr>contact = [c], header = [], footer = [f], body = [b1, b2]\<rparr> = [c, f])"
  by (auto simp: links_to_scrape_spec spec_crawl_set_def slice_to_def max_internal_def
      matches_exclusion_Nil)

lemma crawl_list_priority_example:
  "links_to_scrape \<lparr>max_retries = 3, request_timeout = 20, max_internal_links = Some 2,
       url_exclusion_patterns = Some ''*/blog/*,*.pdf''\<rparr>
     \<lparr>contact = [''https://a.com/contact''], header = [''https://a.com/blog/x''],
      footer = [''https://a.com/terms''], body = [''https://a.com/p1'', ''https://a.com/contact'']\<rparr>
   = spec_crawl_set 2 [''*/blog/*'', ''*.pdf'']
     \<lparr>contact = [''https://a.com/contact''], header = [''https://a.com/blog/x''],
      footer = [''https://a.com/terms''], body = [''https://a.com/p1'', ''https://a.com/contact'']\<rparr>
   \<and> links_to_scrape \<lparr>max_retries = 3, request_timeout = 20, max_internal_links = None,
       url_exclusion_patterns = None\<rparr>
     \<lparr>contact = [''c''], header = [], footer = [''f''], body = [''b1'', ''b2'']\<rparr>
     = spec_crawl_set 25 []  \<lparr>contact = [''c''], header = [], footer = [''f''], body = [''b1'', ''b2'']\<rparr>
   \<and> links_to_scrape \<lparr>max_retries = 3, request_timeout = 20, max_internal_links = Some 2,
       url_exclusion_patterns = None\<rparr>
     \<lparr>contact = [''c''], header = [], footer = [''f''], body = [''b1'', ''b2'']\<rparr> = [''c'', ''f'']"
proof -
  let ?s1 = "\<lparr>max_retries = 3, request_timeout = 20, max_internal_links = Some 2,
       url_exclusion_patterns = Some ''*/blog/*,*.pdf''\<rparr>"
  let ?s2 = "\<lparr>max_retries = 3, request_timeout = 20, max_internal_links = None,
       url_exclusion_patterns = None\<rparr>"
  let ?s3 = "\<lparr>max_retries = 3, request_timeout = 20, max_internal_links = Some 2,
       url_exclusion_patterns = None\<rparr>"
  have p1: "exclusion_patterns ?s1 = [''*/blog/*'', ''*.pdf'']"
    by (simp add: exclusion_patterns_def strip_def is_space_def lower_def lower_chr_def)
  have p2: "exclusion_patterns ?s2 = []" by (simp add: exclusion_patterns_def)
  have p3: "exclusion_patterns ?s3 = []" by (simp add: exclusion_patterns_def)
  have a: "max_internal_links ?s1 = Some 2 \<and> (0::int) < 2" by simp
  have b: "max_internal_links ?s2 = None \<or> max_internal_links ?s2 = Some 0" by simp
  have c: "max_internal_links ?s3 = Some 2 \<and> exclusion_patterns ?s3 = [] \<and> ''c'' \<noteq> ''f''"
    using p3 by simp
  from crawl_list_priority [of ?s1 2] a p1
  have r1: "links_to_scrape ?s1 \<lparr>contact = [''https://a.com/contact''], header = [''https://a.com/blog/x''],
      footer = [''https://a.com/terms''], body = [''https://a.com/p1'', ''https://a.com/contact'']\<rparr>
   = spec_crawl_set 2 [''*/blog/*'', ''*.pdf'']
     \<lparr>contact = [''https://a.com/contact''], header = [''https://a.com/blog/x''],
      footer = [''https://a.com/terms''], body = [''https://a.com/p1'', ''https://a.com/contact'']\<rparr>"
    by (metis nat_numeral)
  from crawl_list_priority [of ?s2] b p2
  have r2: "links_to_scrape ?s2 \<lparr>contact = [''c''], header = [], footer = [''f''], body = [''b1'', ''b2'']\<rparr>
     = spec_crawl_set 25 []  \<lparr>contact = [''c''], header = [], footer = [''f''], body = [''b1'', ''b2'']\<rparr>"
    by metis
  from crawl_list_priority [of ?s3 _ _ "''c''" "''f''"] c
  have r3: "links_to_scrape ?s3 \<lparr>contact = [''c''], header = [], footer = [''f''], body = [''b1'', ''b2'']\<rparr> = [''c'', ''f'']"
    by blast
  from r1 r2 r3 show ?thesis by blast
qed

text \<open>
  Claim C1, at the input where the code departs from it. The claim cuts the crawl list to
  \<open>max_internal_links\<close>, and so do the comments of the code: \<open>Use user's
  max_internal_links setting from database\<close>, \<open>respecting user's limit\<close>, \<open>Limit by user
  setting\<close>, and on the column \<open>Max internal pages to scrape per domain\<close>. The settings
  route stores \<open>int(data.get('max_internal_links', 25))\<close> as it comes, so the setting can
  be 0. Then \<open>settings.max_internal_links or 25\<close> is 25, and of one contact link, one footer
  link and two body links the code crawls all four, where the cut to the setting keeps none.
\<close>

theorem crawl_list_zero_limit:
  "max_internal_links \<lparr>max_retries = 3, request_timeout = 20, max_internal_links = Some 0,
       url_exclusion_patterns = None\<rparr> = Some 0
   \<and> links_to_scrape \<lparr>max_retries = 3, request_timeout = 20, max_internal_links = Some 0,
       url_exclusion_patterns = None\<rparr>
     \<lparr>contact = [''https://a.com/contact''], header = [], footer = [''https://a.com/terms''],
      body = [''https://a.com/p1'', ''https://a.com/p2'']\<rparr>
     = [''https://a.com/contact'', ''https://a.com/terms'', ''https://a.com/p1'', ''https://a.com/p2'']
   \<and> spec_crawl_set 0 []
     \<lparr>contact = [''https://a.com/contact''], header = [], footer = [''https://a.com/terms''],
      body = [''https://a.com/p1'', ''https://a.com/p2'']\<rparr> = []"
  by (simp add: links_to_scrape_def exclusion_patterns_def dict_fromkeys_def slice_to_def
      max_internal_def spec_crawl_set_def)

section \<open>Properties of the social-profile extraction\<close>

lemma match_platforms_keeps:
  "truthy (sl pf) \<Longrightarrow> match_platforms ps link sl pf = sl pf"
  by (induction ps link sl rule: match_platforms.induct) auto

lemma match_platforms_sets:
  "match_platforms ps link sl pf = sl pf
   \<or> (\<exists>cfg. (pf, cfg) \<in> set ps \<and> accepts link cfg \<and> \<not> truthy (sl pf)
        \<and> match_platforms ps link sl pf = Some (clean_social_url (href link)))"
  by (induction ps link sl rule: match_platforms.induct) auto

lemma process_candidates_keeps:
  "truthy (sl pf) \<Longrightarrow> process_candidates cs sl pf = sl pf"
proof (induction cs arbitrary: sl)
  case Nil
  show ?case by simp
next
  case (Cons c cs)
  have "truthy (match_platforms SOCIAL_PLATFORMS c sl pf)"
    using Cons.prems by (simp add: match_platforms_keeps)
  then show ?case
    using Cons by (simp add: match_platforms_keeps)
qed

lemma process_candidates_accepted:
  "process_candidates cs sl pf = sl pf
   \<or> (\<exists>link\<in>set cs. \<exists>cfg. (pf, cfg) \<in> set SOCIAL_PLATFORMS \<and> \<not> skipped_href (href link)
         \<and> accepts link cfg
         \<and> process_candidates cs sl pf = Some (clean_social_url (href link)))"
proof (induction cs arbitrary: sl)
  case Nil
  show ?case by simp
next
  case (Cons c cs)
  show ?case
  proof (cases "skipped_href (href c)")
    case True
    then show ?thesis using Cons.IH [of sl] by auto
  next
    case False
    let ?sl = "match_platforms SOCIAL_PLATFORMS c sl"
    from match_platforms_sets [of SOCIAL_PLATFORMS c sl pf]
    show ?thesis
    proof
      assume same: "?sl pf = sl pf"
      with Cons.IH [of ?sl] False show ?thesis by auto
    next
      assume "\<exists>cfg. (pf, cfg) \<in> set SOCIAL_PLATFORMS \<and> accepts c cfg \<and> \<not> truthy (sl pf)
                \<and> ?sl pf = Some (clean_social_url (href c))"
      then obtain cfg where cfg: "(pf, cfg) \<in> set SOCIAL_PLATFORMS" "accepts c cfg"
        "?sl pf = Some (clean_social_url (href c))"
        by blast
      from cfg(2) have "truthy (?sl pf)"
        by (simp add: cfg(3) truthy_def accepts_def)
      then have "process_candidates cs ?sl pf = Some (clean_social_url (href c))"
        using process_candidates_keeps [of ?sl pf cs] cfg(3) by simp
      with False cfg show ?thesis by auto
    qed
  qed
qed

lemma extract_social_links_accepted:
  assumes "extract_social_links cs pf = Some u"
  shows "\<exists>link\<in>set cs. \<exists>cfg. (pf, cfg) \<in> set SOCIAL_PLATFORMS \<and> \<not> skipped_href (href link)
           \<and> domain_in_href (href link) cfg \<and> \<not> is_share_button (href link) link cfg
           \<and> u = clean_social_url (href link) \<and> length u > 20"
  using process_candidates_accepted [of cs "\<lambda>_. None" pf] assms
  by (auto simp: extract_social_links_def accepts_def)

lemma profile_link_accepted:
  "extract_social_links [\<lparr>href = ''https://facebook.com/acmecorp'', link_text = ''Facebook'',
       classes = [''social-icon'']\<rparr>] Facebook = Some ''https://facebook.com/acmecorp''"
  by code_simp

text \<open>
  Claim C4 at the input where the code departs from it. The anchor is a Facebook share
  button whose shared page is a LinkedIn profile. For Facebook the link is refused (the
  token \<open>sharer\<close>); the loop then goes on to the other platforms, finds \<open>linkedin.com\<close>
  in the query string, tests the link against LinkedIn's tokens only, and stores the share
  URL, cut at the query string, as the LinkedIn profile.
\<close>

theorem share_link_kept_as_profile:
  "extract_social_links
     [\<lparr>href = ''https://facebook.com/sharer.php?u=https://www.linkedin.com/company/acme'',
       link_text = [], classes = []\<rparr>] Linkedin
   = Some ''https://facebook.com/sharer.php''"
  by code_simp

section \<open>Properties of the proxy pool\<close>

lemma selectable_iff:
  "selectable cfg p pl \<longleftrightarrow> use_proxies cfg \<and> p \<in> set (proxies_list pl)"
proof
  assume "selectable cfg p pl"
  then obtain d where d: "get_proxy cfg d pl = Some p" by (auto simp: selectable_def)
  then have up: "use_proxies cfg" and ne: "proxies_list pl \<noteq> []"
    and p: "p = proxies_list pl ! (d mod length (proxies_list pl))"
    by (auto simp: get_proxy_def split: if_splits)
  from ne have "d mod length (proxies_list pl) < length (proxies_list pl)" by simp
  then have "p \<in> set (proxies_list pl)" unfolding p by (rule nth_mem)
  with up show "use_proxies cfg \<and> p \<in> set (proxies_list pl)" by simp
next
  assume a: "use_proxies cfg \<and> p \<in> set (proxies_list pl)"
  then obtain i where i: "i < length (proxies_list pl)" "proxies_list pl ! i = p"
    by (auto simp: in_set_conv_nth)
  then have "get_proxy cfg i pl = Some p"
    using a by (auto simp: get_proxy_def)
  then show "selectable cfg p pl" by (auto simp: selectable_def)
qed

lemma record_proxy_failure_other:
  "q \<noteq> p \<Longrightarrow>
     proxy_failures (record_proxy_failure cfg (Some q) pl) p = proxy_failures pl p
     \<and> (p \<in> set (proxies_list (record_proxy_failure cfg (Some q) pl))
          \<longleftrightarrow> p \<in> set (proxies_list pl))"
  by (auto simp: record_proxy_failure_def Let_def truthy_def)

lemma record_proxy_failure_same:
  "p \<noteq> [] \<Longrightarrow> distinct (proxies_list pl) \<Longrightarrow>
     proxy_failures (record_proxy_failure cfg (Some p) pl) p = proxy_failures pl p + 1
     \<and> (p \<in> set (proxies_list (record_proxy_failure cfg (Some p) pl))
          \<longleftrightarrow> p \<in> set (proxies_list pl) \<and> proxy_failures pl p + 1 < fail_threshold cfg)"
  by (auto simp: record_proxy_failure_def Let_def truthy_def)

lemma record_proxy_failure_distinct:
  "distinct (proxies_list pl) \<Longrightarrow> distinct (proxies_list (record_proxy_failure cfg q pl))"
  by (auto simp: record_proxy_failure_def Let_def)

lemma record_proxy_failure_subset:
  "set (proxies_list (record_proxy_failure cfg q pl)) \<subseteq> set (proxies_list pl)"
  using set_remove1_subset [of "the q" "proxies_list pl"]
  by (auto simp: record_proxy_failure_def Let_def)

lemma record_failures_subset:
  "set (proxies_list (record_failures cfg ps pl)) \<subseteq> set (proxies_list pl)"
proof (induction ps arbitrary: pl)
  case Nil
  show ?case by simp
next
  case (Cons q ps)
  show ?case
    using Cons.IH [of "record_proxy_failure cfg (Some q) pl"]
      record_proxy_failure_subset [of cfg "Some q" pl] by auto
qed

lemma eviction_in_distinct_pool:
  "p \<noteq> [] \<Longrightarrow> distinct (proxies_list pl) \<Longrightarrow>
     proxy_failures (record_failures cfg ps pl) p = proxy_failures pl p + int (count_list ps p)
     \<and> (p \<in> set (proxies_list (record_failures cfg ps pl))
          \<longleftrightarrow> p \<in> set (proxies_list pl)
               \<and> (count_list ps p = 0
                    \<or> proxy_failures pl p + int (count_list ps p) < fail_threshold cfg))"
proof (induction ps arbitrary: pl)
  case Nil
  show ?case by simp
next
  case (Cons q ps)
  let ?pl = "record_proxy_failure cfg (Some q) pl"
  have d: "distinct (proxies_list ?pl)"
    using Cons.prems(2) by (rule record_proxy_failure_distinct)
  note ih = Cons.IH [OF Cons.prems(1) d]
  show ?case
  proof (cases "q = p")
    case True
    note s = record_proxy_failure_same [OF Cons.prems(1) Cons.prems(2), of cfg]
    show ?thesis using ih s True by auto
  next
    case False
    note o = record_proxy_failure_other [OF False, of cfg pl]
    show ?thesis using ih o False by auto
  qed
qed

text \<open>
  Claim C5 at the input where the code departs from it. The pool lists the same proxy URL
  twice (two rows of the \<open>proxies\<close> table with one URL), the threshold is 2 and the
  proxy fails twice: \<open>proxies_list.remove\<close> takes out one occurrence, and the proxy can
  still be selected.
\<close>

theorem duplicate_proxy_stays_selectable:
  "selectable
     \<lparr>use_proxies = True, use_playwright = True, PLAYWRIGHT_AVAILABLE = True,
      fail_threshold = 2, batch_size = 500,
      user_settings = \<lparr>max_retries = 3, request_timeout = 20, max_internal_links = Some 25,
                       url_exclusion_patterns = None\<rparr>\<rparr>
     ''http://10.0.0.1:8080''
     (record_failures
        \<lparr>use_proxies = True, use_playwright = True, PLAYWRIGHT_AVAILABLE = True,
         fail_threshold = 2, batch_size = 500,
         user_settings = \<lparr>max_retries = 3, request_timeout = 20, max_internal_links = Some 25,
                          url_exclusion_patterns = None\<rparr>\<rparr>
        [''http://10.0.0.1:8080'', ''http://10.0.0.1:8080'']
        \<lparr>proxies_list = [''http://10.0.0.1:8080'', ''http://10.0.0.1:8080''],
         proxy_failures = (\<lambda>_. 0)\<rparr>)"
  by (simp add: selectable_iff record_proxy_failure_def Let_def truthy_def)

section \<open>Properties of the fetch with fallback\<close>







lemma next_http_script:
  "http_script w = x # xs \<Longrightarrow> next_http w = (x, w\<lparr>http_script := xs\<rparr>)"
  "http_script w = [] \<Longrightarrow> next_http w = (GetException ''no answer'', w)"
  by (simp_all add: next_http_def)
































section \<open>Properties of the exceptions that leave the fetch\<close>














section \<open>Properties of the batch loop\<close>













end
